theory Spec2Isabelle
  imports Complex_Main
begin

section \<open>Python string primitives used by the script\<close>

text \<open>
  The script is Python 2: a \<open>str\<close> is a byte string, modelled as \<open>string\<close>.
  \<open>str.rstrip()\<close> and \<open>str.lstrip()\<close> without argument remove the six ASCII
  whitespace bytes (space, tab, line feed, vertical tab, form feed, carriage return).
\<close>

definition isspace :: "char \<Rightarrow> bool" where
  "isspace c =
     (c = CHR 0x20 \<or> c = CHR 0x09 \<or> c = CHR 0x0A \<or> c = CHR 0x0B \<or> c = CHR 0x0C \<or> c = CHR 0x0D)"

definition rstrip :: "string \<Rightarrow> string" where
  "rstrip s = rev (dropWhile isspace (rev s))"

definition lstrip :: "string \<Rightarrow> string" where
  "lstrip s = dropWhile isspace s"

text \<open>\<open>sub in s\<close> on strings: \<open>sub\<close> occurs in \<open>s\<close> as a contiguous substring.\<close>

fun str_in :: "string \<Rightarrow> string \<Rightarrow> bool" where
  "str_in sub [] = (sub = [])"
| "str_in sub (c # cs) = (take (length sub) (c # cs) = sub \<or> str_in sub cs)"

text \<open>
  Iterating over \<open>StringIO.StringIO(text)\<close>, or over a file opened in mode \<open>'r'\<close>,
  yields the lines of the text: each line runs up to and including its line feed, the
  last one may lack it, and the empty text has no line.
\<close>

fun io_lines :: "string \<Rightarrow> string list" where
  "io_lines [] = []"
| "io_lines (c # cs) =
     (if c = CHR 0x0A then [c] # io_lines cs
      else (case io_lines cs of [] \<Rightarrow> [[c]] | l # ls \<Rightarrow> (c # l) # ls))"

text \<open>The format directive \<open>%d\<close> (and \<open>str\<close>) on an integer: its decimal digits.\<close>

fun digits :: "nat \<Rightarrow> string" where
  "digits n =
     (if n < 10 then [''0123456789'' ! n]
      else digits (n div 10) @ [''0123456789'' ! (n mod 10)])"

declare digits.simps [simp del]

definition str_int :: "int \<Rightarrow> string" where
  "str_int i = (if i < 0 then ''-'' @ digits (nat (- i)) else digits (nat i))"

text \<open>\<open>s.replace(old, new)\<close> for a one-character \<open>old\<close>: a new string is returned.\<close>

fun replace_char :: "string \<Rightarrow> char \<Rightarrow> string \<Rightarrow> string" where
  "replace_char [] old new = []"
| "replace_char (c # cs) old new =
     (if c = old then new @ replace_char cs old new else c # replace_char cs old new)"

section \<open>Values, exceptions and the outside world\<close>

text \<open>The values the script stores in its result lists.\<close>

datatype pyval = PyNone | PyStr string | PyInt int | PyFloat real

text \<open>
  The exception classes the script names: the five of the runner's \<open>except\<close> clause,
  and \<open>TypeError\<close>, which Python raises when \<open>None\<close> is unpacked into a tuple.
  An exception is its class and the text \<open>str(e)\<close>.
\<close>

datatype exc_class =
  RuntimeError | NetworkError | SocketError | TimeoutException | CommandTimeout | TypeError

type_synonym exn = "exc_class \<times> string"

text \<open>\<open>type(e).__name__\<close>; the class \<open>socket.error\<close> is named \<open>error\<close>.\<close>

fun class_name :: "exc_class \<Rightarrow> string" where
  "class_name RuntimeError = ''RuntimeError''"
| "class_name NetworkError = ''NetworkError''"
| "class_name SocketError = ''error''"
| "class_name TimeoutException = ''TimeoutException''"
| "class_name CommandTimeout = ''CommandTimeout''"
| "class_name TypeError = ''TypeError''"

text \<open>
  How one probe command is run: as a local subprocess
  (\<open>subprocess.check_output(cmd, shell=True, stderr=subprocess.STDOUT)\<close>), or by
  fabric's \<open>run(cmd, timeout=t)\<close> on the current host inside \<open>time_limit(seconds)\<close>.
\<close>

datatype invocation =
  CheckOutput string
| TimeLimitedRun int string string int

text \<open>
  What the outside world answers: the combined output and the exit code (for the local
  subprocess, exit code 0 is \<open>check_output\<close> returning and any other code is its
  \<open>CalledProcessError\<close>), or an exception.
\<close>

datatype response = Finished string int | Raised exn

text \<open>
  The world of one source host: \<open>now i\<close> is what \<open>time.time()\<close> returns and
  \<open>perform i\<close> how the probe command answers at the \<open>i\<close>-th destination of the
  runner's loop.
\<close>

record world =
  now :: "nat \<Rightarrow> real"
  perform :: "nat \<Rightarrow> invocation \<Rightarrow> response"

section \<open>Configuration\<close>

definition env_timeout :: int where
  "env_timeout = 3"

definition access_check_connection_timeout :: int where
  "access_check_connection_timeout = 2"

definition ncat_timeout :: int where
  "ncat_timeout = 4 + access_check_connection_timeout"

definition overall_check_timeout :: int where
  "overall_check_timeout = env_timeout + 7 + ncat_timeout"

section \<open>Cleaning and scanning the probe output\<close>

definition noise :: string where
  "noise = ''id: cannot find''"

fun noise_loop :: "string list \<Rightarrow> string list \<Rightarrow> string list" where
  "noise_loop [] lines = lines"
| "noise_loop (l # ls) lines =
     (let line = rstrip l
      in if \<not> str_in noise line then noise_loop ls (lines @ [line]) else noise_loop ls lines)"

definition stdout_lines_without_noise :: "string \<Rightarrow> string list" where
  "stdout_lines_without_noise stdouterr_text = noise_loop (io_lines stdouterr_text) []"

fun match_loop :: "string list \<Rightarrow> string \<Rightarrow> bool" where
  "match_loop [] str = False"
| "match_loop (l # ls) str = (if rstrip l = str then True else match_loop ls str)"

definition first_str_match_in_stdout_lines :: "string \<Rightarrow> string \<Rightarrow> bool" where
  "first_str_match_in_stdout_lines stdouterr_text str =
     match_loop (stdout_lines_without_noise stdouterr_text) str"

section \<open>The probe and its verdict\<close>

text \<open>
  What \<open>verify_via_fabric_source_can_connect_to_port\<close> returns: nothing (a bare
  \<open>return\<close>, so \<open>None\<close>), or the two-element list \<open>[connect_succ, additional]\<close>.
\<close>

datatype probe_return = ReturnedNone | Returned bool "string option"

definition check_command_for :: "string \<Rightarrow> int \<Rightarrow> string" where
  "check_command_for ip_addr port =
     ''ncat '' @ ip_addr @ '' '' @ str_int port @ '' -i 5ms -w ''
       @ str_int access_check_connection_timeout @ ''s --send-only''"

text \<open>The branch on \<open>env.host_string\<close> that chooses how the command is run.\<close>

definition probe_invocation :: "string \<Rightarrow> string \<Rightarrow> invocation" where
  "probe_invocation host_string check_command =
     (if host_string = ''127.0.0.1'' then CheckOutput check_command
      else TimeLimitedRun overall_check_timeout host_string check_command ncat_timeout)"

text \<open>The second half of the function: from the output and the exit code to a verdict.\<close>

definition interpret_output ::
  "string \<Rightarrow> string \<Rightarrow> int \<Rightarrow> string \<Rightarrow> int \<Rightarrow> exn + probe_return" where
  "interpret_output check_command ip_addr port stdouterr_text return_code =
     (if return_code = 0 then
        Inl (RuntimeError,
             ''got zero exit code from running '' @ [CHR 0x27] @ check_command @ [CHR 0x27]
               @ '': '' @ stdouterr_text)
      else
        let connect_failed_timeout =
              (first_str_match_in_stdout_lines stdouterr_text ''Ncat: Connection timed out.''
               \<or> first_str_match_in_stdout_lines stdouterr_text ''Ncat: Operation timed out.'');
            connect_failed_refused =
              first_str_match_in_stdout_lines stdouterr_text ''Ncat: Connection refused.'';
            connect_succeeded =
              first_str_match_in_stdout_lines stdouterr_text ''Ncat: Idle timeout expired (5 ms).''
        in if connect_succeeded \<and> \<not> connect_failed_timeout \<and> \<not> connect_failed_refused then
             Inr (Returned True None)
           else if connect_failed_timeout \<and> \<not> connect_succeeded \<and> \<not> connect_failed_refused then
             Inr (Returned False (Some ''connection timeout''))
           else if connect_failed_refused \<and> \<not> connect_succeeded \<and> \<not> connect_failed_timeout then
             Inr (Returned False (Some ''connection refused''))
           else
             Inl (RuntimeError,
                  ''Unclear result from netcat to '' @ ip_addr @ '' tcp/'' @ str_int port
                    @ '':\<newline>'' @ stdouterr_text))"

definition verify_via_fabric_source_can_connect_to_port ::
  "(invocation \<Rightarrow> response) \<Rightarrow> string \<Rightarrow> string \<Rightarrow> int \<Rightarrow> exn + probe_return" where
  "verify_via_fabric_source_can_connect_to_port run_it host_string ip_addr port =
     (if take 5 ip_addr = ''fe80:'' then Inr ReturnedNone
      else
        let check_command = check_command_for ip_addr port
        in case run_it (probe_invocation host_string check_command) of
             Raised e \<Rightarrow> Inl e
           | Finished stdouterr_text return_code \<Rightarrow>
               interpret_output check_command ip_addr port stdouterr_text return_code)"

section \<open>The per-source runner\<close>

type_synonym destination = "string \<times> int"

type_synonym test_result = "pyval list"

text \<open>
  The classes of \<open>except (RuntimeError, NetworkError, socket_error, TimeoutException,
  CommandTimeout)\<close>.
\<close>

definition caught :: "exc_class \<Rightarrow> bool" where
  "caught c =
     (c = RuntimeError \<or> c = NetworkError \<or> c = SocketError \<or> c = TimeoutException
      \<or> c = CommandTimeout)"

fun optional_str :: "string option \<Rightarrow> pyval" where
  "optional_str None = PyNone"
| "optional_str (Some s) = PyStr s"

text \<open>
  The body of the \<open>try\<close>: the call, the unpacking of what it returned into
  \<open>(connect_succ, additional)\<close>, which raises \<open>TypeError\<close> on \<open>None\<close>, and
  the choice of the result word.
\<close>

definition try_body ::
  "(invocation \<Rightarrow> response) \<Rightarrow> string \<Rightarrow> string \<Rightarrow> int \<Rightarrow> exn + (string \<times> pyval)" where
  "try_body run_it host_string dest_host port =
     (case verify_via_fabric_source_can_connect_to_port run_it host_string dest_host port of
        Inl e \<Rightarrow> Inl e
      | Inr ReturnedNone \<Rightarrow>
          Inl (TypeError, [CHR 0x27] @ ''NoneType'' @ [CHR 0x27] @ '' object is not iterable'')
      | Inr (Returned connect_succ additional) \<Rightarrow>
          Inr (if connect_succ then ''success'' else ''failure'', optional_str additional))"

text \<open>
  The \<open>except\<close> branch builds the message and calls \<open>message.replace\<close>, whose
  returned string the source does not bind: \<open>message\<close> itself is what is recorded.
\<close>

definition except_branch :: "exn \<Rightarrow> string \<times> pyval" where
  "except_branch e =
     (let message = class_name (fst e) @ '': '' @ snd e;
          unbound = replace_char message (CHR 0x0A) [CHR 0x5C, CHR ''n'']
      in (''error'', PyStr message))"

fun dests_loop ::
  "world \<Rightarrow> string \<Rightarrow> nat \<Rightarrow> destination list \<Rightarrow> test_result list
     \<Rightarrow> exn + test_result list" where
  "dests_loop w host_string i [] results = Inr results"
| "dests_loop w host_string i ((dest_host, port) # dests) results =
     (let test_time = now w i
      in case try_body (perform w i) host_string dest_host port of
           Inr (result, additional) \<Rightarrow>
             dests_loop w host_string (Suc i) dests
               (results @ [[PyStr dest_host, PyInt port, PyStr result, additional, PyFloat test_time]])
         | Inl e \<Rightarrow>
             if caught (fst e) then
               (case except_branch e of
                  (result, additional) \<Rightarrow>
                    dests_loop w host_string (Suc i) dests
                      (results
                         @ [[PyStr dest_host, PyInt port, PyStr result, additional, PyFloat test_time]]))
             else Inl e)"

definition dests_access_test_via_fabric ::
  "world \<Rightarrow> string \<Rightarrow> destination list \<Rightarrow> exn + test_result list" where
  "dests_access_test_via_fabric w host_string dests = dests_loop w host_string 0 dests []"

section \<open>The fan-out orchestrator\<close>

text \<open>\<open>sys.exit(code)\<close>: the process ends with that exit code.\<close>

datatype fatal = SystemExit int

type_synonym result_dict = "(string \<times> test_result list option) list"

text \<open>
  Modelled from the spec: fabric's \<open>execute\<close>, the remote execution transport, is a
  library outside the repository. The spec (4.4) has it "collect a mapping from source
  identifier to that source's result list, or to an explicit no-result signal if the
  orchestration layer could not obtain output for that source", and the source calls its
  value "a dict keyed on source IP". \<open>task h\<close> is what the transport hands back for
  host \<open>h\<close>: \<open>None\<close>, or a list of entries. A dict holds each key once, so a host
  listed twice has one entry; the items are listed in the order the orchestrator's loop
  visits them (Python leaves that order open, and nothing below depends on it).
\<close>

definition execute :: "(string \<Rightarrow> test_result list option) \<Rightarrow> string list \<Rightarrow> result_dict" where
  "execute task hosts = map (\<lambda>h. (h, task h)) (remdups hosts)"

definition errmsg_for :: "string \<Rightarrow> string" where
  "errmsg_for source_ip =
     ''got None as output from fabric for '' @ source_ip
       @ '', meaning it wasn't able to run checks''"

fun test_results_loop ::
  "string \<Rightarrow> test_result list \<Rightarrow> pyval list list \<Rightarrow> fatal + pyval list list" where
  "test_results_loop source_ip [] results = Inr results"
| "test_results_loop source_ip (test_result # rest) results =
     (if length test_result \<noteq> 5 then Inl (SystemExit 1)
      else
        test_results_loop source_ip rest
          (results
             @ [[PyInt (- 1), PyStr source_ip, test_result ! 0, test_result ! 1, test_result ! 2,
                 test_result ! 3, test_result ! 4]]))"

fun no_output_loop :: "string \<Rightarrow> destination list \<Rightarrow> pyval list list \<Rightarrow> pyval list list" where
  "no_output_loop source_ip [] results = results"
| "no_output_loop source_ip ((dest_ip, dest_port) # dests) results =
     no_output_loop source_ip dests
       (results
          @ [[PyInt (- 1), PyStr source_ip, PyStr dest_ip, PyInt dest_port, PyStr ''error'',
              PyStr (errmsg_for source_ip), PyNone]])"

fun post_process ::
  "result_dict \<Rightarrow> destination list \<Rightarrow> pyval list list \<Rightarrow> fatal + pyval list list" where
  "post_process [] dests results = Inr results"
| "post_process ((source_ip, test_results) # items) dests results =
     (case test_results of
        Some entries \<Rightarrow>
          (case test_results_loop source_ip entries results of
             Inl exit \<Rightarrow> Inl exit
           | Inr results' \<Rightarrow> post_process items dests results')
      | None \<Rightarrow> post_process items dests (no_output_loop source_ip dests results))"

definition dests_access_test_for_sources ::
  "(string \<Rightarrow> test_result list option) \<Rightarrow> string list \<Rightarrow> destination list
     \<Rightarrow> fatal + pyval list list" where
  "dests_access_test_for_sources task sources dests =
     (if length sources = 0 then Inr []
      else post_process (execute task sources) dests [])"

section \<open>The script: ledger, sources, results\<close>

text \<open>
  The files the script reads and writes. The already-tested file may be absent
  (\<open>None\<close>). The results file is kept as the rows handed to the TSV writer; a cell is
  a value, or \<open>str\<close> of a value (the port).
\<close>

datatype cell = Val pyval | StrOf pyval

record files =
  sources_file :: string
  already_tested_sources_file :: "string option"
  results_file :: "cell list list"

fun already_loop :: "string list \<Rightarrow> string set \<Rightarrow> string set" where
  "already_loop [] already_tested_sources = already_tested_sources"
| "already_loop (already_line # ls) already_tested_sources =
     already_loop ls (insert (rstrip already_line) already_tested_sources)"

text \<open>An absent file raises \<open>IOError\<close>, which is passed over: the set stays empty.\<close>

definition load_already_tested :: "string option \<Rightarrow> string set" where
  "load_already_tested file =
     (case file of None \<Rightarrow> {} | Some text \<Rightarrow> already_loop (io_lines text) {})"

fun sources_loop :: "string list \<Rightarrow> string set \<Rightarrow> string list \<Rightarrow> string list" where
  "sources_loop [] already_tested_sources sources_to_use = sources_to_use"
| "sources_loop (source_line # ls) already_tested_sources sources_to_use =
     (let source = lstrip (rstrip source_line)
      in if source \<in> already_tested_sources
         then sources_loop ls already_tested_sources sources_to_use
         else sources_loop ls already_tested_sources (sources_to_use @ [source]))"

definition load_sources_to_use :: "string \<Rightarrow> string set \<Rightarrow> string list" where
  "load_sources_to_use text already_tested_sources =
     sources_loop (io_lines text) already_tested_sources []"

fun save_loop :: "pyval list list \<Rightarrow> cell list list \<Rightarrow> cell list list" where
  "save_loop [] written = written"
| "save_loop (result # results) written =
     save_loop results
       (written
          @ [[Val (PyInt (- 1)), Val (result ! 1), Val (result ! 2), StrOf (result ! 3),
              Val (result ! 4), Val (result ! 5), Val (result ! 6)]])"

text \<open>Both files are opened in append mode, which creates an absent file.\<close>

definition save_results :: "pyval list list \<Rightarrow> files \<Rightarrow> files" where
  "save_results results fs = fs\<lparr>results_file := save_loop results (results_file fs)\<rparr>"

fun append_loop :: "string list \<Rightarrow> string \<Rightarrow> string" where
  "append_loop [] text = text"
| "append_loop (source # sources) text = append_loop sources (text @ source @ ''\<newline>'')"

definition commit_sources :: "string list \<Rightarrow> files \<Rightarrow> files" where
  "commit_sources sources_to_use fs =
     fs\<lparr>already_tested_sources_file :=
          Some (append_loop sources_to_use
                  (case already_tested_sources_file fs of None \<Rightarrow> [] | Some text \<Rightarrow> text))\<rparr>"

text \<open>
  The script from the loading of the ledger on; the destinations are taken as parsed.
  It gives the exit code and the files it leaves.
\<close>

definition script ::
  "(string \<Rightarrow> test_result list option) \<Rightarrow> destination list \<Rightarrow> files \<Rightarrow> int \<times> files" where
  "script task destinations fs =
     (let already_tested_sources = load_already_tested (already_tested_sources_file fs);
          sources_to_use = load_sources_to_use (sources_file fs) already_tested_sources
      in case dests_access_test_for_sources task sources_to_use destinations of
           Inl (SystemExit code) \<Rightarrow> (code, fs)
         | Inr results \<Rightarrow> (0, commit_sources sources_to_use (save_results results fs)))"

section \<open>Sample worlds\<close>

text \<open>A world in which every probe command gets the same answer, at time 0.\<close>

definition steady_world :: "response \<Rightarrow> world" where
  "steady_world r = \<lparr>now = (\<lambda>i. 0), perform = (\<lambda>i inv. r)\<rparr>"

text \<open>A transport that hands back the same value for every host.\<close>

definition same_for_all :: "test_result list option \<Rightarrow> string \<Rightarrow> test_result list option" where
  "same_for_all out h = out"

section \<open>Notions the properties are stated with\<close>

text \<open>
  After noise-line removal, a marker line is present: it is one of the cleaned lines.
\<close>

definition marker_present :: "string \<Rightarrow> string \<Rightarrow> bool" where
  "marker_present stdouterr_text marker = (marker \<in> set (stdout_lines_without_noise stdouterr_text))"

text \<open>An error (a \<open>RuntimeError\<close>) whose message contains the raw text.\<close>

definition error_carrying :: "string \<Rightarrow> exn + probe_return \<Rightarrow> bool" where
  "error_carrying stdouterr_text r =
     (case r of Inl (c, message) \<Rightarrow> c = RuntimeError \<and> str_in stdouterr_text message | Inr v \<Rightarrow> False)"

text \<open>The verdict a probe returned, if it returned one.\<close>

definition verdict_of :: "exn + probe_return \<Rightarrow> probe_return option" where
  "verdict_of r = (case r of Inl e \<Rightarrow> None | Inr v \<Rightarrow> Some v)"

text \<open>The whole-attempt time limit an invocation runs under, if any.\<close>

definition time_limit_of :: "invocation \<Rightarrow> int option" where
  "time_limit_of how = (case how of CheckOutput cmd \<Rightarrow> None | TimeLimitedRun seconds h cmd t \<Rightarrow> Some seconds)"

text \<open>
  The orchestrator's result in the spec's words: the record synthesized for a source
  without output and one destination; the records of one source (its entries, each
  prefixed with the subprocess id -1 and the source, or one error record per
  destination); and whether some entry of some source has not exactly five fields.
\<close>

definition error_record :: "string \<Rightarrow> destination \<Rightarrow> pyval list" where
  "error_record source_ip d =
     [PyInt (- 1), PyStr source_ip, PyStr (fst d), PyInt (snd d), PyStr ''error'',
      PyStr (errmsg_for source_ip), PyNone]"

definition records_for ::
  "(string \<Rightarrow> test_result list option) \<Rightarrow> destination list \<Rightarrow> string \<Rightarrow> pyval list list" where
  "records_for task dests source_ip =
     (case task source_ip of
        None \<Rightarrow> map (error_record source_ip) dests
      | Some entries \<Rightarrow> map (\<lambda>test_result. [PyInt (- 1), PyStr source_ip] @ test_result) entries)"

definition malformed :: "(string \<Rightarrow> test_result list option) \<Rightarrow> string list \<Rightarrow> bool" where
  "malformed task sources =
     list_ex (\<lambda>source_ip. case task source_ip of
                  None \<Rightarrow> False
                | Some entries \<Rightarrow> list_ex (\<lambda>test_result. length test_result \<noteq> 5) entries)
       sources"

text \<open>
  The text of the already-tested file (empty when the file is absent), and the dispatch
  list of a run: the script's \<open>sources_to_use\<close> on given files.
\<close>

definition ledger_text :: "files \<Rightarrow> string" where
  "ledger_text fs = (case already_tested_sources_file fs of None \<Rightarrow> [] | Some text \<Rightarrow> text)"

definition dispatched :: "files \<Rightarrow> string list" where
  "dispatched fs =
     load_sources_to_use (sources_file fs) (load_already_tested (already_tested_sources_file fs))"

text \<open>Sample files: two sources, the second already tested.\<close>

definition sample_files :: files where
  "sample_files =
     \<lparr>sources_file = ''10.0.0.1\<newline>10.0.0.2\<newline>'',
      already_tested_sources_file = Some ''10.0.0.2\<newline>'',
      results_file = []\<rparr>"


section \<open>Facts about the string primitives\<close>

lemma str_in_iff: "str_in sub s \<longleftrightarrow> (\<exists>p q. s = p @ sub @ q)"
proof (induction s)
  case Nil
  then show ?case by auto
next
  case (Cons c cs)
  show ?case
  proof
    assume "str_in sub (c # cs)"
    then consider "take (length sub) (c # cs) = sub" | "str_in sub cs" by auto
    then show "\<exists>p q. c # cs = p @ sub @ q"
    proof cases
      case 1
      then have "c # cs = [] @ sub @ drop (length sub) (c # cs)"
        by (metis append_Nil append_take_drop_id)
      then show ?thesis by blast
    next
      case 2
      then obtain p q where "cs = p @ sub @ q" using Cons.IH by blast
      then have "c # cs = (c # p) @ sub @ q" by simp
      then show ?thesis by blast
    qed
  next
    assume "\<exists>p q. c # cs = p @ sub @ q"
    then obtain p q where pq: "c # cs = p @ sub @ q" by blast
    show "str_in sub (c # cs)"
    proof (cases p)
      case Nil
      then have "take (length sub) (c # cs) = sub" using pq by simp
      then show ?thesis by simp
    next
      case (Cons a p')
      then have "cs = p' @ sub @ q" using pq by simp
      then show ?thesis using Cons.IH by auto
    qed
  qed
qed

lemma rstrip_append:
  "rstrip (a @ b) = (if \<forall>c\<in>set b. isspace c then rstrip a else a @ rstrip b)"
  by (simp add: rstrip_def dropWhile_append)

lemma rstrip_idem: "rstrip (rstrip s) = rstrip s"
  by (simp add: rstrip_def)

lemma rstrip_decomp: "\<exists>ws. s = rstrip s @ ws \<and> (\<forall>c\<in>set ws. isspace c)"
proof -
  have "rev s = takeWhile isspace (rev s) @ dropWhile isspace (rev s)" by simp
  then have "s = rev (dropWhile isspace (rev s)) @ rev (takeWhile isspace (rev s))"
    by (metis rev_append rev_rev_ident)
  moreover have "\<forall>c\<in>set (rev (takeWhile isspace (rev s))). isspace c"
    by (auto dest: set_takeWhileD)
  ultimately show ?thesis unfolding rstrip_def by blast
qed

lemma rstrip_all_space: "\<forall>c\<in>set q. isspace c \<Longrightarrow> rstrip q = []"
  by (simp add: rstrip_def)

lemma rstrip_noise: "rstrip (noise @ q) = noise @ rstrip q"
proof (cases "\<forall>c\<in>set q. isspace c")
  case True
  have "rstrip noise = noise" by (simp add: rstrip_def noise_def isspace_def)
  then show ?thesis using True by (simp add: rstrip_append[of noise q] rstrip_all_space)
next
  case False
  then show ?thesis by (auto simp add: rstrip_append[of noise q])
qed

lemma str_in_noise_rstrip: "str_in noise (rstrip l) = str_in noise l"
proof
  assume "str_in noise (rstrip l)"
  then obtain p q where "rstrip l = p @ noise @ q" using str_in_iff by blast
  moreover obtain ws where "l = rstrip l @ ws" using rstrip_decomp by blast
  ultimately have "l = p @ noise @ (q @ ws)" by simp
  then show "str_in noise l" using str_in_iff by blast
next
  assume "str_in noise l"
  then obtain p q where l: "l = p @ noise @ q" using str_in_iff by blast
  have "\<exists>c\<in>set (noise @ q). \<not> isspace c" by (simp add: noise_def isspace_def)
  then have "(if \<forall>c\<in>set (noise @ q). isspace c then rstrip p else p @ rstrip (noise @ q))
      = p @ rstrip (noise @ q)" by (meson if_not_P)
  then have "rstrip l = p @ rstrip (noise @ q)"
    unfolding l using rstrip_append[of p "noise @ q"] by (simp only:)
  then have "rstrip l = p @ noise @ rstrip q" by (simp add: rstrip_noise)
  then show "str_in noise (rstrip l)" using str_in_iff by blast
qed

lemma noise_loop_filter:
  "noise_loop ls acc = acc @ filter (\<lambda>l. \<not> str_in noise l) (map rstrip ls)"
  by (induction ls arbitrary: acc) (simp_all add: Let_def)

lemma stdout_lines_filter:
  "stdout_lines_without_noise text = map rstrip (filter (\<lambda>l. \<not> str_in noise l) (io_lines text))"
  by (simp add: stdout_lines_without_noise_def noise_loop_filter filter_map comp_def str_in_noise_rstrip)

lemma match_loop_mem: "match_loop ls m = (m \<in> set (map rstrip ls))"
  by (induction ls) auto

lemma first_str_match_mem:
  "first_str_match_in_stdout_lines text m = (m \<in> set (stdout_lines_without_noise text))"
  by (simp add: first_str_match_in_stdout_lines_def match_loop_mem stdout_lines_filter rstrip_idem)

lemma io_lines_Nil_iff: "io_lines s = [] \<longleftrightarrow> s = []"
  by (cases s) (auto split: list.splits)

lemma io_lines_append:
  "a = [] \<or> last a = CHR 0x0A \<Longrightarrow> io_lines (a @ b) = io_lines a @ io_lines b"
proof (induction a)
  case Nil
  then show ?case by simp
next
  case (Cons c cs)
  show ?case
  proof (cases "cs = []")
    case True
    then show ?thesis using Cons.prems by simp
  next
    case False
    then have ih: "io_lines (cs @ b) = io_lines cs @ io_lines b" using Cons by simp
    obtain l ls where "io_lines cs = l # ls"
      using False io_lines_Nil_iff[of cs] by (cases "io_lines cs") auto
    then show ?thesis using ih by simp
  qed
qed

lemma io_lines_single:
  "CHR 0x0A \<notin> set n \<Longrightarrow> io_lines (n @ [CHR 0x0A]) = [n @ [CHR 0x0A]]"
  by (induction n) auto

lemma io_lines_unterminated:
  "CHR 0x0A \<notin> set n \<Longrightarrow> n \<noteq> [] \<Longrightarrow> io_lines n = [n]"
proof (induction n)
  case Nil
  then show ?case by simp
next
  case (Cons c cs)
  then show ?case by (cases "cs = []") (auto split: list.splits)
qed

section \<open>The verdict of the probe classifier\<close>

lemma str_in_suffix: "str_in t (p @ t)"
  using str_in_iff[of t "p @ t"] by (metis append_Nil2)

lemma interpret_output_markers:
  "interpret_output cmd ip port text rc =
     (if rc = 0 then
        Inl (RuntimeError,
             (''got zero exit code from running '' @ [CHR 0x27] @ cmd @ [CHR 0x27] @ '': '') @ text)
      else if marker_present text ''Ncat: Idle timeout expired (5 ms).''
              \<and> \<not> (marker_present text ''Ncat: Connection timed out.''
                     \<or> marker_present text ''Ncat: Operation timed out.'')
              \<and> \<not> marker_present text ''Ncat: Connection refused.'' then
        Inr (Returned True None)
      else if (marker_present text ''Ncat: Connection timed out.''
                 \<or> marker_present text ''Ncat: Operation timed out.'')
              \<and> \<not> marker_present text ''Ncat: Idle timeout expired (5 ms).''
              \<and> \<not> marker_present text ''Ncat: Connection refused.'' then
        Inr (Returned False (Some ''connection timeout''))
      else if marker_present text ''Ncat: Connection refused.''
              \<and> \<not> marker_present text ''Ncat: Idle timeout expired (5 ms).''
              \<and> \<not> (marker_present text ''Ncat: Connection timed out.''
                     \<or> marker_present text ''Ncat: Operation timed out.'') then
        Inr (Returned False (Some ''connection refused''))
      else
        Inl (RuntimeError,
             (''Unclear result from netcat to '' @ ip @ '' tcp/'' @ str_int port @ '':\<newline>'') @ text))"
  unfolding interpret_output_def Let_def first_str_match_mem marker_present_def
  by (simp only: append_assoc)

text \<open>
  Claim C1. For every output text and exit code: with exit code 0 the classifier raises an
  error carrying the raw text. Otherwise it returns success exactly when the reachable
  marker is among the cleaned lines and neither failure marker is; it returns failure with
  reason "connection timeout" (resp. "connection refused") exactly when that failure
  marker is present and the other failure marker and the reachable marker are absent; and
  it raises an error carrying the raw text exactly in every other combination.
\<close>

theorem probe_verdict_logic:
  "(let r = interpret_output cmd ip port text rc;
        reachable = marker_present text ''Ncat: Idle timeout expired (5 ms).'';
        timed_out = (marker_present text ''Ncat: Connection timed out.''
                     \<or> marker_present text ''Ncat: Operation timed out.'');
        refused = marker_present text ''Ncat: Connection refused.''
    in if rc = 0 then error_carrying text r
       else (r = Inr (Returned True None)) = (reachable \<and> \<not> timed_out \<and> \<not> refused)
          \<and> (r = Inr (Returned False (Some ''connection timeout'')))
              = (timed_out \<and> \<not> refused \<and> \<not> reachable)
          \<and> (r = Inr (Returned False (Some ''connection refused'')))
              = (refused \<and> \<not> timed_out \<and> \<not> reachable)
          \<and> error_carrying text r
              = (\<not> (reachable \<and> \<not> timed_out \<and> \<not> refused)
                 \<and> \<not> (timed_out \<and> \<not> refused \<and> \<not> reachable)
                 \<and> \<not> (refused \<and> \<not> timed_out \<and> \<not> reachable)))"
  unfolding Let_def interpret_output_markers error_carrying_def
  by (auto simp add: str_in_suffix simp del: append_assoc)

section \<open>The two timeout marker lines\<close>

lemma lines_conn: "stdout_lines_without_noise ''Ncat: Connection timed out.'' = [''Ncat: Connection timed out.'']"
  by (simp add: stdout_lines_without_noise_def rstrip_def isspace_def noise_def)

lemma lines_op: "stdout_lines_without_noise ''Ncat: Operation timed out.'' = [''Ncat: Operation timed out.'']"
  by (simp add: stdout_lines_without_noise_def rstrip_def isspace_def noise_def)

lemma marker_present_iff:
  "\<not> str_in noise m \<Longrightarrow> marker_present text m = (\<exists>l\<in>set (io_lines text). rstrip l = m)"
  unfolding marker_present_def noise_loop_filter stdout_lines_without_noise_def
  by (auto simp add: image_iff)

text \<open>
  Claim C10. The classifier knows four distinct marker lines. With a nonzero exit code, the
  failure "connection timeout" is returned exactly when one of the two lines
  "Ncat: Connection timed out." and "Ncat: Operation timed out." is present and the
  refused and reachable markers are absent; each of the two is matched as a whole line
  (after trimming trailing whitespace), and each alone gives that verdict.
\<close>

theorem timeout_marker_lines:
  assumes "rc \<noteq> 0"
  shows "distinct [''Ncat: Connection timed out.'', ''Ncat: Operation timed out.'',
                   ''Ncat: Connection refused.'', ''Ncat: Idle timeout expired (5 ms).'']
    \<and> (interpret_output cmd ip port text rc = Inr (Returned False (Some ''connection timeout'')))
        = ((marker_present text ''Ncat: Connection timed out.''
            \<or> marker_present text ''Ncat: Operation timed out.'')
           \<and> \<not> marker_present text ''Ncat: Connection refused.''
           \<and> \<not> marker_present text ''Ncat: Idle timeout expired (5 ms).'')
    \<and> marker_present text ''Ncat: Connection timed out.''
        = (\<exists>l\<in>set (io_lines text). rstrip l = ''Ncat: Connection timed out.'')
    \<and> marker_present text ''Ncat: Operation timed out.''
        = (\<exists>l\<in>set (io_lines text). rstrip l = ''Ncat: Operation timed out.'')
    \<and> interpret_output cmd ip port ''Ncat: Connection timed out.'' rc
        = Inr (Returned False (Some ''connection timeout''))
    \<and> interpret_output cmd ip port ''Ncat: Operation timed out.'' rc
        = Inr (Returned False (Some ''connection timeout''))"
proof -
  have d: "distinct [''Ncat: Connection timed out.'', ''Ncat: Operation timed out.'',
                   ''Ncat: Connection refused.'', ''Ncat: Idle timeout expired (5 ms).'']"
    by simp
  have general: "(interpret_output cmd ip port text rc = Inr (Returned False (Some ''connection timeout'')))
        = ((marker_present text ''Ncat: Connection timed out.''
            \<or> marker_present text ''Ncat: Operation timed out.'')
           \<and> \<not> marker_present text ''Ncat: Connection refused.''
           \<and> \<not> marker_present text ''Ncat: Idle timeout expired (5 ms).'')"
    using assms unfolding interpret_output_markers by auto
  have n1: "\<not> str_in noise ''Ncat: Connection timed out.''" by (simp add: noise_def)
  have n2: "\<not> str_in noise ''Ncat: Operation timed out.''" by (simp add: noise_def)
  have e1: "interpret_output cmd ip port ''Ncat: Connection timed out.'' rc
        = Inr (Returned False (Some ''connection timeout''))"
    using assms unfolding interpret_output_markers marker_present_def lines_conn by simp
  have e2: "interpret_output cmd ip port ''Ncat: Operation timed out.'' rc
        = Inr (Returned False (Some ''connection timeout''))"
    using assms unfolding interpret_output_markers marker_present_def lines_op by simp
  show ?thesis
    using d general marker_present_iff[OF n1] marker_present_iff[OF n2] e1 e2 by blast
qed

theorem timeout_marker_lines_witness:
  "interpret_output ''ncat 10.0.0.1 80 -i 5ms -w 2s --send-only'' ''10.0.0.1'' 80
     ''Ncat: Operation timed out.'' 1 = Inr (Returned False (Some ''connection timeout''))
   \<and> marker_present ''Ncat: Operation timed out.'' ''Ncat: Operation timed out.''"
proof -
  have h: "(1::int) \<noteq> 0" by simp
  note t = timeout_marker_lines[OF h, of "''ncat 10.0.0.1 80 -i 5ms -w 2s --send-only''" "''10.0.0.1''" 80 "''Ncat: Operation timed out.''"]
  have "marker_present ''Ncat: Operation timed out.'' ''Ncat: Operation timed out.''"
    by (simp add: marker_present_def lines_op)
  then show ?thesis using t by blast
qed

section \<open>Noise lines\<close>

lemma noise_line_dropped:
  assumes "str_in noise n" and "CHR 0x0A \<notin> set n" and "before = [] \<or> last before = CHR 0x0A"
  shows "stdout_lines_without_noise (before @ n @ [CHR 0x0A] @ after)
           = stdout_lines_without_noise (before @ after)"
proof -
  have "io_lines (before @ (n @ [CHR 0x0A]) @ after)
          = io_lines before @ io_lines ((n @ [CHR 0x0A]) @ after)"
    using assms(3) io_lines_append by blast
  also have "io_lines ((n @ [CHR 0x0A]) @ after) = io_lines (n @ [CHR 0x0A]) @ io_lines after"
    by (rule io_lines_append) simp
  also have "io_lines (n @ [CHR 0x0A]) = [n @ [CHR 0x0A]]"
    using assms(2) by (rule io_lines_single)
  finally have split: "io_lines (before @ n @ [CHR 0x0A] @ after)
      = io_lines before @ [n @ [CHR 0x0A]] @ io_lines after" by simp
  obtain p q where "n = p @ noise @ q" using assms(1) str_in_iff by blast
  then have "n @ [CHR 0x0A] = p @ noise @ (q @ [CHR 0x0A])" by simp
  then have "str_in noise (n @ [CHR 0x0A])" using str_in_iff by blast
  moreover have "io_lines (before @ after) = io_lines before @ io_lines after"
    using assms(3) io_lines_append by blast
  ultimately show ?thesis
    unfolding stdout_lines_filter split by simp
qed

lemma noise_line_alone:
  assumes "str_in noise n" and "CHR 0x0A \<notin> set n"
  shows "stdout_lines_without_noise n = []" and "stdout_lines_without_noise (n @ [CHR 0x0A]) = []"
proof -
  obtain p q where pq: "n = p @ noise @ q" using assms(1) str_in_iff by blast
  then have "n \<noteq> []" by (simp add: noise_def)
  then have "io_lines n = [n]" using assms(2) io_lines_unterminated by blast
  then show "stdout_lines_without_noise n = []"
    unfolding stdout_lines_filter using assms(1) by simp
  have "stdout_lines_without_noise ([] @ n @ [CHR 0x0A] @ []) = stdout_lines_without_noise ([] @ [])"
    using assms by (intro noise_line_dropped) simp_all
  then show "stdout_lines_without_noise (n @ [CHR 0x0A]) = []"
    by (simp add: stdout_lines_without_noise_def)
qed

lemma no_marker_error:
  assumes "rc \<noteq> 0" and "stdout_lines_without_noise t = []"
  shows "error_carrying t (interpret_output cmd ip port t rc)"
  using assms unfolding interpret_output_markers marker_present_def error_carrying_def
  by (simp add: str_in_suffix del: append_assoc)

lemma verdict_by_lines:
  assumes "stdout_lines_without_noise t = stdout_lines_without_noise t'"
  shows "verdict_of (interpret_output cmd ip port t rc) = verdict_of (interpret_output cmd ip port t' rc)"
  using assms unfolding interpret_output_markers marker_present_def verdict_of_def
  by simp

text \<open>
  Claim C5. The cleaned lines are the lines of the output without those that contain
  "id: cannot find", each trimmed of trailing whitespace. Hence a noise line put between
  two parts of an output changes neither the cleaned lines nor the classification, and an
  output that is only a noise line (with or without its line feed), with a nonzero exit
  code, raises an error carrying the raw text.
\<close>

theorem noise_line_filtering:
  assumes "str_in noise n" and "CHR 0x0A \<notin> set n" and "before = [] \<or> last before = CHR 0x0A"
    and "rc \<noteq> 0"
  shows "stdout_lines_without_noise text
           = map rstrip (filter (\<lambda>l. \<not> str_in noise l) (io_lines text))
    \<and> stdout_lines_without_noise (before @ n @ ''\<newline>'' @ after)
        = stdout_lines_without_noise (before @ after)
    \<and> verdict_of (interpret_output cmd ip port (before @ n @ ''\<newline>'' @ after) rc)
        = verdict_of (interpret_output cmd ip port (before @ after) rc)
    \<and> error_carrying n (interpret_output cmd ip port n rc)
    \<and> error_carrying (n @ ''\<newline>'') (interpret_output cmd ip port (n @ ''\<newline>'') rc)"
proof -
  have dropped: "stdout_lines_without_noise (before @ n @ ''\<newline>'' @ after)
        = stdout_lines_without_noise (before @ after)"
    using assms(1-3) by (rule noise_line_dropped)
  have "verdict_of (interpret_output cmd ip port (before @ n @ ''\<newline>'' @ after) rc)
        = verdict_of (interpret_output cmd ip port (before @ after) rc)"
    using dropped by (rule verdict_by_lines)
  moreover have "error_carrying n (interpret_output cmd ip port n rc)"
    using assms(4) noise_line_alone(1)[OF assms(1,2)] by (rule no_marker_error)
  moreover have "error_carrying (n @ ''\<newline>'') (interpret_output cmd ip port (n @ ''\<newline>'') rc)"
    using assms(4) noise_line_alone(2)[OF assms(1,2)] by (rule no_marker_error)
  ultimately show ?thesis using dropped stdout_lines_filter by blast
qed

theorem noise_line_filtering_witness:
  "verdict_of (interpret_output ''ncat 10.0.0.1 80 -i 5ms -w 2s --send-only'' ''10.0.0.1'' 80
      (''id: cannot find this and that'' @ ''\<newline>'' @ ''Ncat: Connection refused.'') 1)
     = Some (Returned False (Some ''connection refused''))
   \<and> error_carrying ''id: cannot find this and that''
        (interpret_output ''ncat 10.0.0.1 80 -i 5ms -w 2s --send-only'' ''10.0.0.1'' 80
           ''id: cannot find this and that'' 1)"
proof -
  have h1: "str_in noise ''id: cannot find this and that''" by (simp add: noise_def)
  have h2: "CHR 0x0A \<notin> set ''id: cannot find this and that''" by simp
  have h3: "([]::string) = [] \<or> last [] = CHR 0x0A" by simp
  have h4: "(1::int) \<noteq> 0" by simp
  have l: "stdout_lines_without_noise ''Ncat: Connection refused.'' = [''Ncat: Connection refused.'']"
    by (simp add: stdout_lines_without_noise_def rstrip_def isspace_def noise_def)
  have v: "verdict_of (interpret_output ''ncat 10.0.0.1 80 -i 5ms -w 2s --send-only'' ''10.0.0.1'' 80
      ''Ncat: Connection refused.'' 1) = Some (Returned False (Some ''connection refused''))"
    unfolding interpret_output_markers marker_present_def l verdict_of_def by simp
  show ?thesis
    using noise_line_filtering[OF h1 h2 h3 h4, of _ "''Ncat: Connection refused.''"
        "''ncat 10.0.0.1 80 -i 5ms -w 2s --send-only''" "''10.0.0.1''" 80] v
    by simp
qed

section \<open>The local bypass\<close>

text \<open>
  Claim C9. The probe command is run as a local subprocess exactly when the current host
  string is the literal "127.0.0.1"; every other host string, "localhost" included, goes
  through the remote run with the shell-command timeout 6 inside the whole-attempt time
  limit 16, and the local subprocess runs under no time limit.
\<close>

theorem local_bypass_condition:
  "(probe_invocation host_string cmd = CheckOutput cmd) = (host_string = ''127.0.0.1'')
   \<and> time_limit_of (probe_invocation host_string cmd)
       = (if host_string = ''127.0.0.1'' then None else Some 16)
   \<and> probe_invocation ''localhost'' cmd = TimeLimitedRun 16 ''localhost'' cmd 6
   \<and> verify_via_fabric_source_can_connect_to_port run_it host_string ip port
       = (if take 5 ip = ''fe80:'' then Inr ReturnedNone
          else case run_it (if host_string = ''127.0.0.1'' then CheckOutput (check_command_for ip port)
                            else TimeLimitedRun 16 host_string (check_command_for ip port) 6) of
                 Raised e \<Rightarrow> Inl e
               | Finished stdouterr_text return_code \<Rightarrow>
                   interpret_output (check_command_for ip port) ip port stdouterr_text return_code)"
  by (simp add: probe_invocation_def time_limit_of_def overall_check_timeout_def ncat_timeout_def
      env_timeout_def access_check_connection_timeout_def
      verify_via_fabric_source_can_connect_to_port_def Let_def)

section \<open>The runner on a link-local destination and on an unclear output\<close>

lemma try_body_link_local:
  "take 5 dest_host = ''fe80:'' \<Longrightarrow>
   try_body run_it host_string dest_host port
     = Inl (TypeError, [CHR 0x27] @ ''NoneType'' @ [CHR 0x27] @ '' object is not iterable'')"
  by (simp add: try_body_def verify_via_fabric_source_can_connect_to_port_def)

text \<open>
  Claim C3 (the code departs from it). The runner is claimed never to raise and to return
  one tuple per destination. On a destination list with a link-local address it raises
  \<open>TypeError\<close>, whatever the world answers, and returns no tuple.
\<close>

theorem runner_raises_on_link_local:
  "dests_access_test_via_fabric w host_string [(''fe80::1'', 80)]
     = Inl (TypeError, [CHR 0x27] @ ''NoneType'' @ [CHR 0x27] @ '' object is not iterable'')"
  by (simp add: dests_access_test_via_fabric_def try_body_link_local caught_def)

text \<open>
  Claim C4 (the code departs from it). For a link-local destination the probe is skipped
  and \<open>None\<close> is returned, but the runner then raises \<open>TypeError\<close> on unpacking
  it: nothing is recorded for that destination and the destinations after it are not
  probed.
\<close>

theorem link_local_aborts_runner:
  "verify_via_fabric_source_can_connect_to_port run_it host_string ''fe80::1'' 80 = Inr ReturnedNone
   \<and> dests_access_test_via_fabric w host_string [(''fe80::1'', 80), (''10.0.0.1'', 22)]
       = Inl (TypeError, [CHR 0x27] @ ''NoneType'' @ [CHR 0x27] @ '' object is not iterable'')"
  by (simp add: dests_access_test_via_fabric_def try_body_link_local caught_def
      verify_via_fabric_source_can_connect_to_port_def)

lemma except_branch_keeps_message:
  "except_branch e = (''error'', PyStr (class_name (fst e) @ '': '' @ snd e))"
  by (simp add: except_branch_def Let_def)

lemma lines_empty: "stdout_lines_without_noise [] = []"
  by (simp add: stdout_lines_without_noise_def)

lemma unclear_empty:
  "interpret_output cmd ''10.0.0.1'' 80 [] 1
     = Inl (RuntimeError, ''Unclear result from netcat to 10.0.0.1 tcp/80:\<newline>'')"
  unfolding interpret_output_markers marker_present_def lines_empty
  by (simp add: str_int_def digits.simps)

text \<open>
  Claim C8 (the code departs from it). The detail of an error record is
  "<ExceptionKind>: <message>" with its line feeds kept: the string returned by
  \<open>replace\<close> is not bound. An output without marker gives a detail that ends in a
  line feed.
\<close>

theorem newline_not_escaped:
  "dests_access_test_via_fabric (steady_world (Finished [] 1)) ''10.0.0.2'' [(''10.0.0.1'', 80)]
     = Inr [[PyStr ''10.0.0.1'', PyInt 80, PyStr ''error'',
             PyStr ''RuntimeError: Unclear result from netcat to 10.0.0.1 tcp/80:\<newline>'',
             PyFloat 0]]
   \<and> CHR 0x0A \<in> set ''RuntimeError: Unclear result from netcat to 10.0.0.1 tcp/80:\<newline>''"
  by (simp add: dests_access_test_via_fabric_def try_body_def
      verify_via_fabric_source_can_connect_to_port_def steady_world_def unclear_empty
      caught_def except_branch_def Let_def)

section \<open>The orchestrator and the runner, characterised\<close>

lemma five_fields:
  "length t = 5 \<Longrightarrow> [a, b, t ! 0, t ! 1, t ! 2, t ! 3, t ! 4] = [a, b] @ t"
  by (auto simp add: list_eq_iff_nth_eq nth_Cons' numeral_eq_Suc less_Suc_eq)

lemma test_results_loop_eq:
  "test_results_loop s entries acc =
     (if list_ex (\<lambda>t. length t \<noteq> 5) entries then Inl (SystemExit 1)
      else Inr (acc @ map (\<lambda>t. [PyInt (- 1), PyStr s] @ t) entries))"
proof (induction entries arbitrary: acc)
  case Nil
  then show ?case by simp
next
  case (Cons t ts)
  show ?case
  proof (cases "length t = 5")
    case True
    then show ?thesis using Cons.IH five_fields[OF True] by simp
  next
    case False
    then show ?thesis by simp
  qed
qed

lemma no_output_loop_eq:
  "no_output_loop s dests acc = acc @ map (error_record s) dests"
  by (induction dests arbitrary: acc) (auto simp add: error_record_def)

lemma post_process_eq:
  "post_process (map (\<lambda>h. (h, task h)) hs) dests acc =
     (if malformed task hs then Inl (SystemExit 1)
      else Inr (acc @ concat (map (records_for task dests) hs)))"
proof (induction hs arbitrary: acc)
  case Nil
  then show ?case by (simp add: malformed_def)
next
  case (Cons h hs)
  show ?case
  proof (cases "task h")
    case None
    then have "records_for task dests h = map (error_record h) dests"
      by (simp add: records_for_def)
    then show ?thesis
      using None Cons.IH by (simp add: malformed_def no_output_loop_eq)
  next
    case (Some entries)
    then have "records_for task dests h = map (\<lambda>t. [PyInt (- 1), PyStr h] @ t) entries"
      by (simp add: records_for_def)
    then show ?thesis
      using Some Cons.IH by (simp add: malformed_def test_results_loop_eq)
  qed
qed

lemma malformed_remdups: "malformed task (remdups sources) = malformed task sources"
  by (simp add: malformed_def list_ex_iff)

lemma orchestrator_result:
  "dests_access_test_for_sources task sources dests =
     (if malformed task sources then Inl (SystemExit 1)
      else Inr (concat (map (records_for task dests) (remdups sources))))"
proof (cases "sources = []")
  case True
  then show ?thesis by (simp add: dests_access_test_for_sources_def malformed_def)
next
  case False
  then show ?thesis
    by (simp add: dests_access_test_for_sources_def execute_def post_process_eq malformed_remdups)
qed

lemma dests_loop_shape:
  "dests_loop w h i dests acc = Inr r \<Longrightarrow>
   \<exists>rows. r = acc @ rows \<and> length rows = length dests
     \<and> list_all (\<lambda>t. length t = 5) rows
     \<and> map (\<lambda>t. (t ! 0, t ! 1)) rows = map (\<lambda>d. (PyStr (fst d), PyInt (snd d))) dests"
proof (induction dests arbitrary: i acc r)
  case Nil
  then show ?case by simp
next
  case (Cons d ds)
  obtain dh p where d: "d = (dh, p)" by (cases d)
  from Cons.prems obtain res add where
    step: "dests_loop w h (Suc i) ds (acc @ [[PyStr dh, PyInt p, PyStr res, add, PyFloat (now w i)]]) = Inr r"
    unfolding d
    by (auto simp add: Let_def split: sum.splits if_splits prod.splits)
  from Cons.IH[OF step] obtain rows where
    rows: "r = (acc @ [[PyStr dh, PyInt p, PyStr res, add, PyFloat (now w i)]]) @ rows"
      "length rows = length ds" "list_all (\<lambda>t. length t = 5) rows"
      "map (\<lambda>t. (t ! 0, t ! 1)) rows = map (\<lambda>d. (PyStr (fst d), PyInt (snd d))) ds"
    by blast
  let ?rows = "[PyStr dh, PyInt p, PyStr res, add, PyFloat (now w i)] # rows"
  have "r = acc @ ?rows" using rows(1) by simp
  moreover have "length ?rows = length (d # ds)" using rows(2) by simp
  moreover have "list_all (\<lambda>t. length t = 5) ?rows" using rows(3) by simp
  moreover have "map (\<lambda>t. (t ! 0, t ! 1)) ?rows = map (\<lambda>d. (PyStr (fst d), PyInt (snd d))) (d # ds)"
    using rows(4) d by simp
  ultimately show ?case by blast
qed

lemma runner_shape:
  assumes "dests_access_test_via_fabric w h dests = Inr r"
  shows "length r = length dests" and "list_all (\<lambda>t. length t = 5) r"
    and "map (\<lambda>t. (t ! 0, t ! 1)) r = map (\<lambda>d. (PyStr (fst d), PyInt (snd d))) dests"
  using dests_loop_shape[of w h 0 dests "[]" r] assms
  by (auto simp add: dests_access_test_via_fabric_def)

lemma interpret_output_raises_RuntimeError:
  "interpret_output cmd ip port t rc = Inl e \<Longrightarrow> fst e = RuntimeError"
  unfolding interpret_output_markers by (auto split: if_splits)

lemma interpret_output_not_None:
  "interpret_output cmd ip port t rc \<noteq> Inr ReturnedNone"
  unfolding interpret_output_markers by simp

lemma try_body_raises:
  assumes "try_body run_it h dh p = Inl e" and "take 5 dh \<noteq> ''fe80:''"
    and "\<And>how x. run_it how = Raised x \<Longrightarrow> caught (fst x)"
  shows "caught (fst e)"
proof (cases "run_it (probe_invocation h (check_command_for dh p))")
  case (Finished t rc)
  then have "interpret_output (check_command_for dh p) dh p t rc = Inl e"
    using assms(1,2) interpret_output_not_None[of "check_command_for dh p" dh p t rc]
    by (auto simp add: try_body_def verify_via_fabric_source_can_connect_to_port_def Let_def
        split: sum.splits probe_return.splits)
  then show ?thesis
    using interpret_output_raises_RuntimeError by (simp add: caught_def)
next
  case (Raised x)
  then have "e = x"
    using assms(1,2)
    by (auto simp add: try_body_def verify_via_fabric_source_can_connect_to_port_def Let_def)
  then show ?thesis using assms(3) Raised by blast
qed

lemma dests_loop_returns:
  assumes "list_all (\<lambda>d. take 5 (fst d) \<noteq> ''fe80:'') dests"
    and "\<forall>i how x. perform w i how = Raised x \<longrightarrow> caught (fst x)"
  shows "\<exists>r. dests_loop w h i dests acc = Inr r"
  using assms(1)
proof (induction dests arbitrary: i acc)
  case Nil
  then show ?case by simp
next
  case (Cons d ds)
  obtain dh p where d: "d = (dh, p)" by (cases d)
  have nl: "take 5 dh \<noteq> ''fe80:''" using Cons.prems d by simp
  have rest: "list_all (\<lambda>d. take 5 (fst d) \<noteq> ''fe80:'') ds" using Cons.prems by simp
  show ?case
  proof (cases "try_body (perform w i) h dh p")
    case (Inl e)
    have "caught (fst e)"
      using Inl nl assms(2) try_body_raises[of "perform w i" h dh p e] by blast
    then show ?thesis
      using Inl Cons.IH[OF rest] unfolding d by (simp add: Let_def split: prod.splits)
  next
    case (Inr v)
    then show ?thesis
      using Cons.IH[OF rest] unfolding d by (simp add: Let_def split: prod.splits)
  qed
qed

lemma runner_returns:
  assumes "list_all (\<lambda>d. take 5 (fst d) \<noteq> ''fe80:'') dests"
    and "\<forall>i how x. perform w i how = Raised x \<longrightarrow> caught (fst x)"
  shows "\<exists>r. dests_access_test_via_fabric w h dests = Inr r \<and> length r = length dests
           \<and> map (\<lambda>t. (t ! 0, t ! 1)) r = map (\<lambda>d. (PyStr (fst d), PyInt (snd d))) dests"
proof -
  obtain r where r: "dests_access_test_via_fabric w h dests = Inr r"
    using dests_loop_returns[OF assms, where h=h and i=0 and acc="[]"] by (auto simp add: dests_access_test_via_fabric_def)
  then show ?thesis using runner_shape[OF r] by blast
qed

section \<open>The number of records\<close>

lemma length_concat_const:
  "\<forall>x\<in>set xs. length (f x) = n \<Longrightarrow> length (concat (map f xs)) = length xs * n"
  by (induction xs) auto

lemma records_for_runner:
  assumes "task s = Some r" and "dests_access_test_via_fabric w s dests = Inr r"
  shows "length (records_for task dests s) = length dests"
    and "map (\<lambda>row. (row ! 1, row ! 2, row ! 3)) (records_for task dests s)
           = map (\<lambda>d. (PyStr s, PyStr (fst d), PyInt (snd d))) dests"
proof -
  have rf: "records_for task dests s = map (\<lambda>t. [PyInt (- 1), PyStr s] @ t) r"
    using assms(1) by (simp add: records_for_def)
  show "length (records_for task dests s) = length dests"
    using rf runner_shape(1)[OF assms(2)] by simp
  have "map (\<lambda>row. (row ! 1, row ! 2, row ! 3)) (records_for task dests s)
          = map (\<lambda>t. (PyStr s, t ! 0, t ! 1)) r"
    unfolding rf by simp
  also have "\<dots> = map (\<lambda>q. (PyStr s, fst q, snd q)) (map (\<lambda>t. (t ! 0, t ! 1)) r)"
    by simp
  also have "\<dots> = map (\<lambda>d. (PyStr s, PyStr (fst d), PyInt (snd d))) dests"
    unfolding runner_shape(3)[OF assms(2)] by simp
  finally show "map (\<lambda>row. (row ! 1, row ! 2, row ! 3)) (records_for task dests s)
           = map (\<lambda>d. (PyStr s, PyStr (fst d), PyInt (snd d))) dests" .
qed

lemma records_for_None:
  assumes "task s = None"
  shows "records_for task dests s = map (error_record s) dests"
    and "length (records_for task dests s) = length dests"
    and "map (\<lambda>row. (row ! 1, row ! 2, row ! 3)) (records_for task dests s)
           = map (\<lambda>d. (PyStr s, PyStr (fst d), PyInt (snd d))) dests"
  using assms by (simp_all add: records_for_def error_record_def)

lemma runner_entries_wellformed:
  assumes "\<forall>s\<in>set sources. \<forall>r. task s = Some r \<longrightarrow> (\<exists>w. dests_access_test_via_fabric w s dests = Inr r)"
  shows "\<not> malformed task sources"
proof
  assume "malformed task sources"
  then obtain s r t where s: "s \<in> set sources" "task s = Some r" "t \<in> set r" "length t \<noteq> 5"
    by (auto simp add: malformed_def list_ex_iff split: option.splits)
  then obtain w where "dests_access_test_via_fabric w s dests = Inr r" using assms by blast
  then have "list_all (\<lambda>t. length t = 5) r" by (rule runner_shape(2))
  then show False using s(3,4) by (simp add: list_all_iff)
qed

text \<open>
  Claim C2 (as amended). When every source's entry in the result dict is either \<open>None\<close>
  or a list the per-source runner returned for the destinations, the orchestrator returns
  one record per pair of a distinct source and a destination, so
  \<open>|distinct sources| * |dests|\<close> records, which is \<open>|sources| * |dests|\<close> when no
  source is listed twice; a source whose entry is \<open>None\<close> contributes one error record
  per destination, with the fixed message.
\<close>

theorem result_count:
  assumes "\<forall>s\<in>set sources. \<forall>r. task s = Some r
             \<longrightarrow> (\<exists>w. dests_access_test_via_fabric w s dests = Inr r)"
  shows "dests_access_test_for_sources task sources dests
           = Inr (concat (map (records_for task dests) (remdups sources)))
    \<and> length (concat (map (records_for task dests) (remdups sources)))
        = length (remdups sources) * length dests
    \<and> (distinct sources \<longrightarrow>
         length (concat (map (records_for task dests) (remdups sources)))
           = length sources * length dests)
    \<and> map (\<lambda>row. (row ! 1, row ! 2, row ! 3)) (concat (map (records_for task dests) (remdups sources)))
        = concat (map (\<lambda>s. map (\<lambda>d. (PyStr s, PyStr (fst d), PyInt (snd d))) dests) (remdups sources))
    \<and> (\<forall>s\<in>set sources. task s = None \<longrightarrow> records_for task dests s = map (error_record s) dests)"
proof -
  have each: "length (records_for task dests s) = length dests
      \<and> map (\<lambda>row. (row ! 1, row ! 2, row ! 3)) (records_for task dests s)
           = map (\<lambda>d. (PyStr s, PyStr (fst d), PyInt (snd d))) dests"
    if mem: "s \<in> set sources" for s
  proof (cases "task s")
    case None
    then show ?thesis using records_for_None(2,3) by blast
  next
    case (Some r)
    then obtain w where w: "dests_access_test_via_fabric w s dests = Inr r"
      using assms mem by blast
    show ?thesis
      using records_for_runner(1)[of task s r w dests] records_for_runner(2)[of task s r w dests]
        Some w by blast
  qed
  have res: "dests_access_test_for_sources task sources dests
           = Inr (concat (map (records_for task dests) (remdups sources)))"
    using runner_entries_wellformed[OF assms] by (simp add: orchestrator_result)
  have len: "length (concat (map (records_for task dests) (remdups sources)))
        = length (remdups sources) * length dests"
    by (rule length_concat_const) (simp add: each)
  have dist: "distinct sources \<longrightarrow>
         length (concat (map (records_for task dests) (remdups sources)))
           = length sources * length dests"
  proof
    assume "distinct sources"
    then have "remdups sources = sources" by (rule distinct_remdups_id)
    then show "length (concat (map (records_for task dests) (remdups sources)))
           = length sources * length dests"
      using len by (simp only:)
  qed
  have "map (map (\<lambda>row. (row ! 1, row ! 2, row ! 3)) \<circ> records_for task dests) (remdups sources)
          = map (\<lambda>s. map (\<lambda>d. (PyStr s, PyStr (fst d), PyInt (snd d))) dests) (remdups sources)"
  proof (rule map_cong[OF refl])
    fix s
    assume "s \<in> set (remdups sources)"
    then have "s \<in> set sources" by simp
    then show "(map (\<lambda>row. (row ! 1, row ! 2, row ! 3)) \<circ> records_for task dests) s
        = map (\<lambda>d. (PyStr s, PyStr (fst d), PyInt (snd d))) dests"
      using each unfolding comp_def by blast
  qed
  then have "concat (map (map (\<lambda>row. (row ! 1, row ! 2, row ! 3)) \<circ> records_for task dests) (remdups sources))
          = concat (map (\<lambda>s. map (\<lambda>d. (PyStr s, PyStr (fst d), PyInt (snd d))) dests) (remdups sources))"
    by (simp only:)
  then have pairs: "map (\<lambda>row. (row ! 1, row ! 2, row ! 3)) (concat (map (records_for task dests) (remdups sources)))
        = concat (map (\<lambda>s. map (\<lambda>d. (PyStr s, PyStr (fst d), PyInt (snd d))) dests) (remdups sources))"
    by (simp only: map_concat map_map)
  have none: "\<forall>s\<in>set sources. task s = None \<longrightarrow> records_for task dests s = map (error_record s) dests"
    using records_for_None(1) by blast
  show ?thesis using res len dist pairs none by blast
qed

lemma lines_refused:
  "stdout_lines_without_noise ''Ncat: Connection refused.'' = [''Ncat: Connection refused.'']"
  by (simp add: stdout_lines_without_noise_def rstrip_def isspace_def noise_def)

lemma refused_verdict:
  "interpret_output cmd ip port ''Ncat: Connection refused.'' 1
     = Inr (Returned False (Some ''connection refused''))"
  unfolding interpret_output_markers marker_present_def lines_refused by simp

lemma refused_run:
  "take 5 dh \<noteq> ''fe80:'' \<Longrightarrow>
   dests_access_test_via_fabric (steady_world (Finished ''Ncat: Connection refused.'' 1)) h [(dh, p)]
     = Inr [[PyStr dh, PyInt p, PyStr ''failure'', PyStr ''connection refused'', PyFloat 0]]"
  by (simp add: dests_access_test_via_fabric_def try_body_def
      verify_via_fabric_source_can_connect_to_port_def steady_world_def refused_verdict Let_def)

text \<open>
  Claim C2 as stated fails for a source listed twice: the result dict has one entry for
  it, so two sources and one destination give one record, not two.
\<close>

theorem result_count_duplicate_source:
  "dests_access_test_via_fabric (steady_world (Finished ''Ncat: Connection refused.'' 1))
       ''10.0.0.1'' [(''10.0.0.9'', 22)]
     = Inr [[PyStr ''10.0.0.9'', PyInt 22, PyStr ''failure'', PyStr ''connection refused'', PyFloat 0]]
   \<and> dests_access_test_for_sources
       (same_for_all
          (Some [[PyStr ''10.0.0.9'', PyInt 22, PyStr ''failure'', PyStr ''connection refused'', PyFloat 0]]))
       [''10.0.0.1'', ''10.0.0.1''] [(''10.0.0.9'', 22)]
     = Inr [[PyInt (- 1), PyStr ''10.0.0.1'', PyStr ''10.0.0.9'', PyInt 22, PyStr ''failure'',
             PyStr ''connection refused'', PyFloat 0]]
   \<and> length [[PyInt (- 1), PyStr ''10.0.0.1'', PyStr ''10.0.0.9'', PyInt 22, PyStr ''failure'',
               PyStr ''connection refused'', PyFloat 0]]
       \<noteq> length [''10.0.0.1'', ''10.0.0.1''] * length [(''10.0.0.9'', 22 :: int)]"
  by (simp add: refused_run dests_access_test_for_sources_def execute_def same_for_all_def)

theorem result_count_witness:
  "dests_access_test_for_sources
       (same_for_all
          (Some [[PyStr ''10.0.0.9'', PyInt 22, PyStr ''failure'', PyStr ''connection refused'', PyFloat 0]]))
       [''10.0.0.1'', ''10.0.0.2''] [(''10.0.0.9'', 22)]
     = Inr [[PyInt (- 1), PyStr ''10.0.0.1'', PyStr ''10.0.0.9'', PyInt 22, PyStr ''failure'',
             PyStr ''connection refused'', PyFloat 0],
            [PyInt (- 1), PyStr ''10.0.0.2'', PyStr ''10.0.0.9'', PyInt 22, PyStr ''failure'',
             PyStr ''connection refused'', PyFloat 0]]"
proof -
  let ?r = "[[PyStr ''10.0.0.9'', PyInt 22, PyStr ''failure'', PyStr ''connection refused'', PyFloat 0]]"
  have run: "dests_access_test_via_fabric (steady_world (Finished ''Ncat: Connection refused.'' 1))
       s [(''10.0.0.9'', 22)] = Inr ?r" for s
    by (simp add: refused_run)
  have h: "\<forall>s\<in>set [''10.0.0.1'', ''10.0.0.2'']. \<forall>r. same_for_all (Some ?r) s = Some r
             \<longrightarrow> (\<exists>w. dests_access_test_via_fabric w s [(''10.0.0.9'', 22)] = Inr r)"
    using run by (auto simp add: same_for_all_def)
  have fn: "same_for_all (Some ?r) = (\<lambda>h. Some ?r)"
    by (rule ext) (simp add: same_for_all_def)
  show ?thesis
    using result_count[OF h] by (simp add: records_for_def fn)
qed

section \<open>Malformed entries\<close>

lemma script_result:
  "script task dests fs =
     (if malformed task (dispatched fs) then (1, fs)
      else (0, commit_sources (dispatched fs)
                 (save_results (concat (map (records_for task dests) (remdups (dispatched fs)))) fs)))"
  by (simp add: script_def dispatched_def Let_def orchestrator_result)

lemma malformed_iff:
  "malformed task sources
     = (\<exists>s\<in>set sources. \<exists>entries. task s = Some entries \<and> (\<exists>t\<in>set entries. length t \<noteq> 5))"
  unfolding malformed_def list_ex_iff
  by (fastforce split: option.splits)

text \<open>
  Claim C6. The orchestrator ends the process with exit code 1 exactly when some entry of
  some source's result list has not exactly five fields; the script then exits with code 1
  and leaves the files as they were. Otherwise every entry is accepted and flattened into
  a record prefixed with the subprocess id -1 and the source.
\<close>

theorem malformed_record_fatality:
  "dests_access_test_for_sources task sources dests
     = (if malformed task sources then Inl (SystemExit 1)
        else Inr (concat (map (records_for task dests) (remdups sources))))
   \<and> script task dests fs
     = (if malformed task (dispatched fs) then (1, fs)
        else (0, commit_sources (dispatched fs)
                   (save_results (concat (map (records_for task dests) (remdups (dispatched fs)))) fs)))
   \<and> malformed task sources
     = (\<exists>s\<in>set sources. \<exists>entries. task s = Some entries \<and> (\<exists>t\<in>set entries. length t \<noteq> 5))"
  using orchestrator_result[of task sources dests] script_result[of task dests fs]
    malformed_iff[of task sources]
  by (simp only: simp_thms)

lemma sample_dispatched: "dispatched sample_files = [''10.0.0.1'']"
  by (simp add: dispatched_def sample_files_def load_sources_to_use_def load_already_tested_def
      Let_def rstrip_def lstrip_def isspace_def)

theorem malformed_record_fatality_witness:
  "script (same_for_all (Some [[PyStr ''10.0.0.9'', PyInt 22, PyStr ''failure'', PyNone]]))
      [(''10.0.0.9'', 22)] sample_files = (1, sample_files)"
proof -
  have "malformed (same_for_all (Some [[PyStr ''10.0.0.9'', PyInt 22, PyStr ''failure'', PyNone]]))
          (dispatched sample_files)"
    by (simp add: sample_dispatched malformed_def same_for_all_def)
  then show ?thesis
    using malformed_record_fatality[of
        "same_for_all (Some [[PyStr ''10.0.0.9'', PyInt 22, PyStr ''failure'', PyNone]])"
        "[]" "[(''10.0.0.9'', 22)]" sample_files]
    by simp
qed

section \<open>The ledger\<close>



lemma append_loop_eq:
  "append_loop srcs t = t @ concat (map (\<lambda>s. s @ ''\<newline>'') srcs)"
  by (induction srcs arbitrary: t) simp_all












lemma script_completes:
  assumes "dests_access_test_for_sources task (dispatched fs) dests = Inr results"
  shows "script task dests fs
           = (0, fs\<lparr>results_file := save_loop results (results_file fs),
                    already_tested_sources_file :=
                      Some (ledger_text fs @ concat (map (\<lambda>s. s @ ''\<newline>'') (dispatched fs)))\<rparr>)"
  using assms
  by (simp add: script_def dispatched_def Let_def commit_sources_def save_results_def
      append_loop_eq ledger_text_def)





text \<open>The script keeps the already-tested file ending with a line feed.\<close>

lemma ledger_stays_terminated:
  assumes "dests_access_test_for_sources task (dispatched fs) dests = Inr results"
    and "ledger_text fs = [] \<or> last (ledger_text fs) = CHR 0x0A"
  shows "ledger_text (snd (script task dests fs)) = []
           \<or> last (ledger_text (snd (script task dests fs))) = CHR 0x0A"
proof -
  have "ledger_text (snd (script task dests fs))
          = ledger_text fs @ concat (map (\<lambda>s. s @ ''\<newline>'') (dispatched fs))"
    unfolding script_completes[OF assms(1)] by (simp add: ledger_text_def)
  moreover have "concat (map (\<lambda>s. s @ ''\<newline>'') xs) = []
      \<or> last (concat (map (\<lambda>s. s @ ''\<newline>'') xs)) = CHR 0x0A" for xs :: "string list"
    by (induction xs rule: rev_induct) simp_all
  ultimately show ?thesis using assms(2) by (metis append_Nil2 last_appendR)
qed



end
